theory Spec2Isabelle
  imports Complex_Main
begin

section \<open>Python string primitives\<close>

text \<open>
  Python strings are sequences of code points. A \<^typ>\<open>char\<close> stands for one code point
  below 256 (the Latin-1 range), so \<^const>\<open>length\<close> counts what \<open>len\<close> counts.
  \<open>str.isspace\<close>, \<open>str.lower\<close> and the regular-expression class \<open>\w\<close> are written
  out for that range.
\<close>

definition py_isspace :: "char \<Rightarrow> bool" where
  "py_isspace c =
     (let n = (of_char c :: nat)
      in (9 \<le> n \<and> n \<le> 13) \<or> (28 \<le> n \<and> n \<le> 32) \<or> n = 133 \<or> n = 160)"

definition py_lower_char :: "char \<Rightarrow> char" where
  "py_lower_char c =
     (let n = (of_char c :: nat)
      in if (65 \<le> n \<and> n \<le> 90) \<or> (192 \<le> n \<and> n \<le> 222 \<and> n \<noteq> 215)
         then char_of (n + 32) else c)"

definition py_lower :: "string \<Rightarrow> string" where
  "py_lower s = map py_lower_char s"

definition py_strip :: "string \<Rightarrow> string" where
  "py_strip s = rev (dropWhile py_isspace (rev (dropWhile py_isspace s)))"

text \<open>\<open>s.split()\<close>: maximal runs of non-whitespace; \<open>w\<close> is the current run, reversed.\<close>

fun py_split_aux :: "string \<Rightarrow> string \<Rightarrow> string list" where
  "py_split_aux w [] = (if w = [] then [] else [rev w])"
| "py_split_aux w (c # cs) =
     (if py_isspace c
      then (if w = [] then py_split_aux [] cs else rev w # py_split_aux [] cs)
      else py_split_aux (c # w) cs)"

definition py_split :: "string \<Rightarrow> string list" where
  "py_split s = py_split_aux [] s"

text \<open>\<open>s.startswith(p)\<close> and \<open>sub in s\<close>.\<close>

fun startswith :: "string \<Rightarrow> string \<Rightarrow> bool" where
  "startswith s [] = True"
| "startswith [] (p # ps) = False"
| "startswith (c # cs) (p # ps) = (c = p \<and> startswith cs ps)"

fun py_contains :: "string \<Rightarrow> string \<Rightarrow> bool" where
  "py_contains sub [] = (sub = [])"
| "py_contains sub (c # cs) = (startswith (c # cs) sub \<or> py_contains sub cs)"

text \<open>\<open>sep.join(parts)\<close>.\<close>

fun py_join :: "string \<Rightarrow> string list \<Rightarrow> string" where
  "py_join sep [] = []"
| "py_join sep [p] = p"
| "py_join sep (p # q # ps) = p @ sep @ py_join sep (q # ps)"

text \<open>\<open>xs[:n]\<close> and \<open>xs[-n:]\<close> for a Python integer \<open>n\<close>; a negative bound counts from the end.\<close>

definition py_take :: "int \<Rightarrow> 'a list \<Rightarrow> 'a list" where
  "py_take n xs = (if 0 \<le> n then take (nat n) xs else take (length xs - nat (- n)) xs)"

definition py_last :: "int \<Rightarrow> 'a list \<Rightarrow> 'a list" where
  "py_last n xs = (if 0 < n then drop (length xs - nat n) xs else xs)"

section \<open>Turn classification (rag\_pipeline.py, \<open>is_greeting\<close>, \<open>is_informational\<close>)\<close>

definition single_word_greetings :: "string list" where
  "single_word_greetings = [''hi'', ''hey'', ''hello'', ''yo'', ''thanks'', ''thx'', ''bye'']"

definition greeting_patterns :: "string list" where
  "greeting_patterns =
     [''good morning'', ''good night'', ''good evening'', ''thank you'', ''thanks a lot'']"

definition is_greeting :: "string \<Rightarrow> bool" where
  "is_greeting query =
     (if query = [] then False
      else let q = py_lower (py_strip query) in
        if length (py_split q) = 1 \<and> q \<in> set single_word_greetings then True
        else if length (py_split q) \<le> 2 \<and> q \<in> set greeting_patterns then True
        else False)"

definition legal_keywords :: "string list" where
  "legal_keywords =
     [''article'', ''section'', ''act'', ''law'', ''rights'', ''ipc'', ''judgment'',
      ''judgement'', ''court'', ''statute'', ''contract'', ''evidence'', ''penalty'',
      ''fine'', ''offence'', ''crime'', ''liable'', ''liability'', ''divorce'',
      ''marriage'', ''custody'', ''writ'', ''injunction'']"

definition is_informational :: "string \<Rightarrow> bool" where
  "is_informational query =
     (if query = [] then False
      else let q = py_lower (py_strip query) in
        if py_contains ''?'' q then True
        else if length q > 40 then True
        else list_ex (\<lambda>kw. py_contains kw q) legal_keywords)"

section \<open>Token estimate (rag\_pipeline.py, \<open>_estimate_tokens\<close>)\<close>

definition estimate_tokens :: "string \<Rightarrow> int" where
  "estimate_tokens text = (if text = [] then 0 else max 1 (int (length text) div 4))"

section \<open>Text generation (rag\_pipeline.py, \<open>generate_response\<close>)\<close>

text \<open>
  The hosted model is a collaborator: a request is its list of messages, the outcome is
  the text of the raised exception (\<open>Inl\<close>) or the content of the first choice
  (\<open>Inr\<close>). Model name, temperature and output cap are constants of each call site.
\<close>

datatype message = System string | User string

type_synonym llm = "message list \<Rightarrow> string + string"

definition nl :: string where
  "nl = [CHR 0x0A]"

definition dq :: string where
  "dq = [CHR 0x22]"

definition apostrophe :: string where
  "apostrophe = [CHR 0x27]"

definition system_prompt :: string where
  "system_prompt = concat (map (\<lambda>l. l @ nl)
     [''You are a legal assistant specializing in Indian constitutional law and human rights.'',
      [],
      ''Your knowledge domains:'',
      ''- Indian Constitution (Articles, Amendments, Schedules)'',
      ''- Fundamental Rights (Articles 12-35)'',
      ''- Directive Principles of State Policy'',
      ''- Universal Declaration of Human Rights (UDHR)'',
      ''- Constitutional governance structures (Panchayati Raj, etc.)'',
      [],
      ''Guidelines:'',
      ''1. Always cite specific Articles/Sections when applicable'',
      ''2. Distinguish between constitutional rights vs. human rights treaties'',
      ''3. If context lacks relevant information, say: '' @ dq
        @ ''Based on the available documents, I don'' @ apostrophe
        @ ''t have specific information on this topic.'' @ dq,
      ''4. Use clear, accessible language while maintaining legal accuracy''])"

definition user_prompt :: "string \<Rightarrow> string \<Rightarrow> string \<Rightarrow> string" where
  "user_prompt query context conversation_context =
     ''Conversation:'' @ nl @ conversation_context @ nl @ nl
     @ ''Context:'' @ nl @ context @ nl @ nl
     @ ''Question: '' @ query"

definition generate_response :: "llm \<Rightarrow> string \<Rightarrow> string \<Rightarrow> string \<Rightarrow> string" where
  "generate_response groq query context conversation_context =
     (case groq [System system_prompt, User (user_prompt query context conversation_context)] of
        Inr content \<Rightarrow> content
      | Inl e \<Rightarrow> ''Error generating response: '' @ e)"

section \<open>Query rewriting (rag\_pipeline.py, \<open>rewrite_query_with_context\<close>)\<close>

definition informational_starters :: "string list" where
  "informational_starters =
     [''explain'', ''what is'', ''what are'', ''what was'', ''what does'',
      ''who'', ''when'', ''where'', ''why'', ''how'', ''which'',
      ''define'', ''describe'', ''list'', ''tell me about'']"

definition specific_legal_terms :: "string list" where
  "specific_legal_terms =
     [''article'', ''section'', ''act'', ''ipc'', ''crpc'', ''constitution'',
      ''amendment'', ''schedule'', ''panchayat'', ''fundamental rights'',
      ''directive principles'', ''udhr'', ''iccpr'']"

text \<open>The class \<open>\w\<close> of \<open>re\<close> on \<open>str\<close> patterns: alphanumeric code points and \<open>_\<close>.\<close>

definition re_word_char :: "char \<Rightarrow> bool" where
  "re_word_char c =
     (let n = (of_char c :: nat)
      in (48 \<le> n \<and> n \<le> 57) \<or> (65 \<le> n \<and> n \<le> 90) \<or> n = 95 \<or> (97 \<le> n \<and> n \<le> 122)
         \<or> n = 170 \<or> n = 178 \<or> n = 179 \<or> n = 181 \<or> n = 185 \<or> n = 186
         \<or> (188 \<le> n \<and> n \<le> 190) \<or> (192 \<le> n \<and> n \<le> 214)
         \<or> (216 \<le> n \<and> n \<le> 246) \<or> (248 \<le> n \<and> n \<le> 255))"

text \<open>
  \<open>re.search(r'\bw\b', s)\<close> for a word \<open>w\<close> of word characters: \<open>w\<close> occurs in \<open>s\<close>,
  not preceded and not followed by a word character. \<open>prev\<close> tells whether the
  character before the current position is a word character.
\<close>

definition word_ends_here :: "string \<Rightarrow> string \<Rightarrow> bool" where
  "word_ends_here w s =
     (startswith s w \<and> (case drop (length w) s of [] \<Rightarrow> True | c # _ \<Rightarrow> \<not> re_word_char c))"

fun search_word_from :: "bool \<Rightarrow> string \<Rightarrow> string \<Rightarrow> bool" where
  "search_word_from prev w [] = False"
| "search_word_from prev w (c # cs) =
     ((\<not> prev \<and> word_ends_here w (c # cs)) \<or> search_word_from (re_word_char c) w cs)"

definition search_word :: "string \<Rightarrow> string \<Rightarrow> bool" where
  "search_word w s = search_word_from False w s"

text \<open>\<open>re.search(r'^(more|another)', s)\<close>.\<close>

definition starts_more_another :: "string \<Rightarrow> bool" where
  "starts_more_another s = (startswith s ''more'' \<or> startswith s ''another'')"

text \<open>\<open>re.search(r'^(give|show|provide)\s+(me\s+)?(examples?|details?)', s)\<close>.\<close>

definition skip_spaces1 :: "string \<Rightarrow> string option" where
  "skip_spaces1 s =
     (case s of [] \<Rightarrow> None
      | c # cs \<Rightarrow> if py_isspace c then Some (dropWhile py_isspace cs) else None)"

definition starts_example_detail :: "string \<Rightarrow> bool" where
  "starts_example_detail s = (startswith s ''example'' \<or> startswith s ''detail'')"

definition starts_give_examples :: "string \<Rightarrow> bool" where
  "starts_give_examples s =
     list_ex (\<lambda>verb.
        startswith s verb \<and>
        (case skip_spaces1 (drop (length verb) s) of
           None \<Rightarrow> False
         | Some r \<Rightarrow>
             starts_example_detail r \<or>
             (startswith r ''me'' \<and>
              (case skip_spaces1 (drop 2 r) of
                 None \<Rightarrow> False
               | Some t \<Rightarrow> starts_example_detail t))))
       [''give'', ''show'', ''provide'']"

definition has_follow_up :: "string \<Rightarrow> bool" where
  "has_follow_up query =
     (let q = py_lower query in
        search_word ''that'' q \<or> search_word ''this'' q \<or> search_word ''those'' q
        \<or> search_word ''it'' q \<or> search_word ''them'' q
        \<or> starts_more_another q \<or> starts_give_examples q)"

definition rewrite_prompt :: "string \<Rightarrow> string \<Rightarrow> string" where
  "rewrite_prompt query conversation_context =
     ''You are rewriting a follow-up legal question to be self-contained.'' @ nl @ nl
     @ ''Previous conversation (last 2 turns):'' @ nl
     @ py_last 800 conversation_context @ nl @ nl
     @ ''User'' @ apostrophe @ ''s follow-up: '' @ query @ nl @ nl
     @ ''Rules:'' @ nl
     @ ''1. If the query references '' @ dq @ ''that'' @ dq @ '', '' @ dq @ ''this'' @ dq
     @ '', '' @ dq @ ''it'' @ dq @ '', replace with the actual topic from conversation'' @ nl
     @ ''2. Preserve exact legal terminology (Article numbers, act names, constitutional terms)'' @ nl
     @ ''3. Keep it concise (max 20 words)'' @ nl
     @ ''4. If already clear, return unchanged'' @ nl @ nl
     @ ''Rewritten question:''"

text \<open>
  The result is paired with the requests sent to the generator, in order, so that
  ``without calling the generator'' is a statement about the function.
\<close>

definition rewrite_query_with_context ::
    "llm \<Rightarrow> string \<Rightarrow> string \<Rightarrow> string \<times> message list list" where
  "rewrite_query_with_context groq query conversation_context =
     (if conversation_context = [] then (query, [])
      else if length (py_split query) > 15 then (query, [])
      else if list_ex (\<lambda>starter. startswith (py_strip (py_lower query)) starter)
                informational_starters then (query, [])
      else if list_ex (\<lambda>term. py_contains term (py_lower query)) specific_legal_terms
           then (query, [])
      else if \<not> has_follow_up query then (query, [])
      else
        let request = [User (rewrite_prompt query conversation_context)] in
        (case groq request of
           Inl e \<Rightarrow> (query, [request])
         | Inr content \<Rightarrow>
             let rewritten = py_strip content in
             if length (py_split rewritten) > length (py_split query) * 2
             then (query, [request])
             else (rewritten, [request])))"

section \<open>Hybrid retrieval (hybrid\_retriever.py, \<open>HybridRetriever.search\<close>)\<close>

text \<open>
  Scores are the real numbers that the floats denote and score arithmetic is exact.
  The vector store and the BM25 scorer are collaborators: \<open>vector_search\<close> is
  \<open>self.vector_store.search\<close>, and \<open>bm25_ranked\<close> gives, for the query tokens,
  \<open>np.argsort(self.bm25.get_scores(query_tokens))[::-1]\<close>, the corpus indices by
  descending lexical score.
\<close>

record retriever =
  documents :: "string list"
  vector_search :: "string \<Rightarrow> int \<Rightarrow> (string \<times> real) list"
  bm25_ranked :: "string list \<Rightarrow> nat list"

definition query_tokens_of :: "string \<Rightarrow> string list" where
  "query_tokens_of query = filter (\<lambda>t. length t > 1) (py_split (py_lower query))"

text \<open>\<open>list.index\<close>: the first position of the element, \<open>None\<close> for \<open>ValueError\<close>.\<close>

fun index_of :: "'a list \<Rightarrow> 'a \<Rightarrow> nat option" where
  "index_of [] x = None"
| "index_of (y # ys) x = (if y = x then Some 0 else map_option Suc (index_of ys x))"

definition vector_ranked :: "string list \<Rightarrow> (string \<times> real) list \<Rightarrow> nat list" where
  "vector_ranked docs vector_results =
     List.map_filter (\<lambda>(doc, score). index_of docs doc) vector_results"

text \<open>
  \<open>rrf_scores\<close> is a dictionary read in insertion order by \<open>sorted\<close>: an association
  list, a new key appended at the end.
  \<open>rrf_add m i w\<close> is \<open>m[i] = m.get(i, 0) + w\<close>.
\<close>

fun rrf_add :: "(nat \<times> real) list \<Rightarrow> nat \<Rightarrow> real \<Rightarrow> (nat \<times> real) list" where
  "rrf_add [] i w = [(i, 0 + w)]"
| "rrf_add ((j, s) # m) i w = (if j = i then (j, s + w) # m else (j, s) # rrf_add m i w)"

text \<open>\<open>for rank, doc_idx in enumerate(ranked): m[doc_idx] = m.get(doc_idx, 0) + weight / (rrf_k + rank + 1)\<close>,
  from position \<open>rank\<close> on, with \<open>rrf_k = 60\<close>.\<close>

fun add_ranks :: "real \<Rightarrow> nat \<Rightarrow> nat list \<Rightarrow> (nat \<times> real) list \<Rightarrow> (nat \<times> real) list" where
  "add_ranks weight rank [] m = m"
| "add_ranks weight rank (doc_idx # rest) m =
     add_ranks weight (rank + 1) rest (rrf_add m doc_idx (weight / (60 + real rank + 1)))"

definition bm25_top :: "retriever \<Rightarrow> string \<Rightarrow> int \<Rightarrow> nat list" where
  "bm25_top r query k = py_take (k * 3) (bm25_ranked r (query_tokens_of query))"

definition vector_top :: "retriever \<Rightarrow> string \<Rightarrow> int \<Rightarrow> nat list" where
  "vector_top r query k =
     py_take (k * 3)
       (vector_ranked (documents r) (vector_search r query (int (length (documents r)))))"

definition rrf_scores :: "retriever \<Rightarrow> string \<Rightarrow> int \<Rightarrow> real \<Rightarrow> (nat \<times> real) list" where
  "rrf_scores r query k alpha =
     add_ranks alpha 0 (vector_top r query k) (add_ranks 1 0 (bm25_top r query k) [])"

text \<open>\<open>sorted(items, key=lambda x: x[1], reverse=True)\<close>: stable, descending.\<close>

definition sorted_docs :: "(nat \<times> real) list \<Rightarrow> (nat \<times> real) list" where
  "sorted_docs items = sort_key (\<lambda>(doc_idx, score). - score) items"

definition search :: "retriever \<Rightarrow> string \<Rightarrow> int \<Rightarrow> real \<Rightarrow> (string \<times> real) list" where
  "search r query k alpha =
     (if query_tokens_of query = [] then vector_search r query k
      else
        map (\<lambda>(doc_idx, rrf_score). (documents r ! doc_idx, rrf_score))
          (filter (\<lambda>(doc_idx, rrf_score). doc_idx < length (documents r))
             (py_take k (sorted_docs (rrf_scores r query k alpha)))))"

section \<open>The pipeline and its collaborators (rag\_pipeline.py, \<open>RAGPipeline\<close>)\<close>

text \<open>
  The conversation store is a collaborator with a state of its own, of type \<open>'s\<close>; each
  call returns the new state, or the text of the exception it raised (\<open>Inl\<close>), leaving
  the state as it was. The debug payload handed to the store is left out.
  \<open>get_conversation_context st session_id summarizer\<close> has \<open>summarizer\<close> true when a
  client is passed as \<open>groq_client\<close>.
\<close>

record 's conversation_manager =
  get_conversation_context :: "'s \<Rightarrow> string \<Rightarrow> bool \<Rightarrow> string + string \<times> 's"
  ensure_summary_limit :: "'s \<Rightarrow> string \<Rightarrow> string + 's"
  add_exchange :: "'s \<Rightarrow> string \<Rightarrow> string \<Rightarrow> string \<Rightarrow> string + 's"
  insert_one :: "'s \<Rightarrow> string \<Rightarrow> string \<Rightarrow> string \<Rightarrow> string + 's"

text \<open>
  What the evaluator returns: \<open>None\<close>, a dictionary, or another value with its truth
  value.
\<close>

datatype eval_value = Structured string | Unstructured bool

type_synonym evaluator_fn =
  "string \<Rightarrow> string \<Rightarrow> string \<Rightarrow> string \<Rightarrow> string + eval_value option"

text \<open>\<open>retrieve_k\<close> is \<open>int(os.getenv("RETRIEVE_K", "5"))\<close>.\<close>

record 's pipeline =
  groq_client :: llm
  vector_store_search :: "string \<Rightarrow> int \<Rightarrow> (string \<times> real) list"
  hybrid_retriever :: "retriever option"
  manager :: "'s conversation_manager"
  evaluator :: "evaluator_fn option"
  is_initialized :: bool
  model_max_tokens :: int
  reserved_response_tokens :: int
  min_k :: int
  retrieve_k :: int

text \<open>The literal \<open>0.2\<close> of \<open>retrieve_context\<close>.\<close>

definition score_threshold :: real where
  "score_threshold = 0.2"

text \<open>The literal \<open>alpha=0.9\<close> of \<open>retrieve_context\<close>.\<close>

definition hybrid_alpha :: real where
  "hybrid_alpha = 0.9"

text \<open>The retrieval step of \<open>retrieve_context\<close>: hybrid if there is a retriever, else the vector store.\<close>

definition retrieval_results ::
    "'s pipeline \<Rightarrow> string \<Rightarrow> int \<Rightarrow> (string \<times> real) list" where
  "retrieval_results p query k =
     (case hybrid_retriever p of
        Some h \<Rightarrow> search h query k hybrid_alpha
      | None \<Rightarrow> vector_store_search p query k)"

definition retrieve_context :: "'s pipeline \<Rightarrow> string \<Rightarrow> int \<Rightarrow> string" where
  "retrieve_context p query k =
     (if \<not> is_initialized p then []
      else
        let results = retrieval_results p query k;
            context_parts = map fst (filter (\<lambda>(doc, score). score > score_threshold) results);
            context_parts = (if context_parts = [] \<and> results \<noteq> []
                             then map fst (py_take k results) else context_parts)
        in py_join (nl @ nl) context_parts)"

section \<open>The context budget loop (rag\_pipeline.py, \<open>chat\<close>, the \<open>while True\<close> loop)\<close>

text \<open>
  The variables the loop changes, and a count of the passes through its body
  (\<open>ls_steps\<close>; the count is not in the source, it is what the bound on the loop is
  stated about).
\<close>

record 's loop_state =
  ls_k :: int
  ls_conversation_context :: string
  ls_store :: "'s"
  ls_steps :: nat

text \<open>The three \<open>break\<close> statements of the loop, in the order of the source.\<close>

datatype loop_exit = WithinBudget | WithinBudgetAfterSummary | HardTruncated

record 's loop_result =
  lr_retrieved_context :: string
  lr_k :: int
  lr_conversation_context :: string
  lr_store :: "'s"
  lr_exit :: loop_exit
  lr_steps :: nat

datatype ('a, 'b) step = Continue 'a | Break 'b

text \<open>
  The \<open>try\<close> block of the loop: \<open>ensure_summary_limit\<close>, then
  \<open>get_conversation_context(session_id, groq_client=None)\<close>. The boolean tells
  whether both returned, that is whether the total is recomputed and tested.
\<close>

definition refresh_summary ::
    "'s pipeline \<Rightarrow> string \<Rightarrow> 's loop_state \<Rightarrow> string \<times> 's \<times> bool" where
  "refresh_summary p session_id st =
     (case ensure_summary_limit (manager p) (ls_store st) session_id of
        Inl e \<Rightarrow> (ls_conversation_context st, ls_store st, False)
      | Inr s1 \<Rightarrow>
          (case get_conversation_context (manager p) s1 session_id False of
             Inl e \<Rightarrow> (ls_conversation_context st, s1, False)
           | Inr (c, s2) \<Rightarrow> (c, s2, True)))"

text \<open>The last branch of the loop body: hard truncation, then \<open>break\<close>.\<close>

definition hard_truncate ::
    "int \<Rightarrow> int \<Rightarrow> string \<Rightarrow> string \<Rightarrow> string \<times> string" where
  "hard_truncate available_context_tokens query_tokens conversation_context retrieved_context =
     (let allowed = max 0 (available_context_tokens - estimate_tokens conversation_context
                           - query_tokens);
          (conversation_context, allowed) =
            (if allowed \<le> 0
             then
               let conv_chars_keep = max 0 ((available_context_tokens div 2) * 4);
                   conversation_context =
                     (if conv_chars_keep > 0 then py_last conv_chars_keep conversation_context
                      else [])
               in (conversation_context,
                   max 0 (available_context_tokens - estimate_tokens conversation_context
                          - query_tokens))
             else (conversation_context, allowed));
          char_limit = allowed * 4;
          retrieved_context =
            (if char_limit < int (length retrieved_context)
             then py_take char_limit retrieved_context else retrieved_context)
      in (conversation_context, retrieved_context))"

definition loop_body ::
    "'s pipeline \<Rightarrow> string \<Rightarrow> string \<Rightarrow> bool \<Rightarrow> int \<Rightarrow> int \<Rightarrow> 's loop_state
     \<Rightarrow> ('s loop_state, 's loop_result) step" where
  "loop_body p session_id query include_history available_context_tokens query_tokens st =
     (let retrieved_context = retrieve_context p query (ls_k st);
          n = Suc (ls_steps st);
          tokens_total = estimate_tokens (ls_conversation_context st)
                         + estimate_tokens retrieved_context + query_tokens
      in
        if tokens_total \<le> available_context_tokens
        then Break \<lparr>lr_retrieved_context = retrieved_context, lr_k = ls_k st,
                    lr_conversation_context = ls_conversation_context st,
                    lr_store = ls_store st, lr_exit = WithinBudget, lr_steps = n\<rparr>
        else
          let (conversation_context, store, refreshed) =
                (if include_history then refresh_summary p session_id st
                 else (ls_conversation_context st, ls_store st, False))
          in
            if refreshed \<and>
               estimate_tokens conversation_context + estimate_tokens retrieved_context
                 + query_tokens \<le> available_context_tokens
            then Break \<lparr>lr_retrieved_context = retrieved_context, lr_k = ls_k st,
                        lr_conversation_context = conversation_context,
                        lr_store = store, lr_exit = WithinBudgetAfterSummary, lr_steps = n\<rparr>
            else if ls_k st > min_k p
            then Continue \<lparr>ls_k = max (min_k p) (ls_k st - 1),
                           ls_conversation_context = conversation_context,
                           ls_store = store, ls_steps = n\<rparr>
            else
              let (conversation_context, retrieved_context) =
                    hard_truncate available_context_tokens query_tokens
                      conversation_context retrieved_context
              in Break \<lparr>lr_retrieved_context = retrieved_context, lr_k = ls_k st,
                          lr_conversation_context = conversation_context,
                          lr_store = store, lr_exit = HardTruncated, lr_steps = n\<rparr>)"

function budget_loop ::
    "'s pipeline \<Rightarrow> string \<Rightarrow> string \<Rightarrow> bool \<Rightarrow> int \<Rightarrow> int \<Rightarrow> 's loop_state
     \<Rightarrow> 's loop_result" where
  "budget_loop p session_id query include_history available_context_tokens query_tokens st =
     (case loop_body p session_id query include_history available_context_tokens
             query_tokens st of
        Break r \<Rightarrow> r
      | Continue st' \<Rightarrow>
          budget_loop p session_id query include_history available_context_tokens
            query_tokens st')"
  by pat_completeness auto
termination
  by (relation "measure (\<lambda>(p, session_id, query, include_history, available, query_tokens, st).
                  nat (ls_k st - min_k p))")
     (auto simp: loop_body_def Let_def split: if_splits prod.splits)

declare budget_loop.simps [simp del]

section \<open>The chat turn (rag\_pipeline.py, \<open>chat\<close>)\<close>

text \<open>
  The debug dictionary; a key that a path does not set is \<open>None\<close>.
\<close>

record debug_info =
  conversation_context_preview :: string
  retrieved_context_preview :: string
  tokens_conversation :: int
  tokens_retrieved :: int
  tokens_query :: int
  total_context_allowed :: int
  used_k :: int
  debug_note :: "string option"
  query_rewritten :: "bool option"
  original_query :: "string option"
  rewritten_query :: "string option"

record turn =
  response :: string
  debug :: debug_info
  evaluation :: "eval_value option"

text \<open>
  The greeting path stores both messages inside \<open>try ... except: pass\<close>; the retrieval
  path stores outside any \<open>try\<close>, so an exception of the store ends the turn
  (\<open>Inl\<close>).
\<close>

definition greeting_turn ::
    "'s pipeline \<Rightarrow> 's \<Rightarrow> string \<Rightarrow> string \<Rightarrow> bool \<Rightarrow> turn \<times> 's" where
  "greeting_turn p s session_id query evaluate =
     (let response_text = generate_response (groq_client p) query [] [];
          dbg = \<lparr>conversation_context_preview = [], retrieved_context_preview = [],
                 tokens_conversation = 0, tokens_retrieved = 0,
                 tokens_query = estimate_tokens query,
                 total_context_allowed = model_max_tokens p - reserved_response_tokens p,
                 used_k = 0, debug_note = Some ''retrieval_skipped_greeting'',
                 query_rewritten = None, original_query = None, rewritten_query = None\<rparr>;
          s' = (case insert_one (manager p) s session_id ''user'' query of
                  Inl e \<Rightarrow> s
                | Inr s1 \<Rightarrow>
                    (case insert_one (manager p) s1 session_id ''assistant'' response_text of
                       Inl e \<Rightarrow> s1
                     | Inr s2 \<Rightarrow> s2));
          ev = (if evaluate
                then (case evaluator p of
                        None \<Rightarrow> None
                      | Some f \<Rightarrow>
                          (case f session_id query response_text [] of
                             Inl e \<Rightarrow> None
                           | Inr v \<Rightarrow> v))
                else None)
      in (\<lparr>response = response_text, debug = dbg, evaluation = ev\<rparr>, s'))"

definition retrieval_turn ::
    "'s pipeline \<Rightarrow> 's \<Rightarrow> string \<Rightarrow> string \<Rightarrow> bool \<Rightarrow> bool \<Rightarrow> string + turn \<times> 's" where
  "retrieval_turn p s session_id query0 include_history evaluate =
     (let desired_k = retrieve_k p in
      case (if include_history
            then get_conversation_context (manager p) s session_id True
            else Inr ([], s)) of
        Inl e \<Rightarrow> Inl e
      | Inr (conversation_context, s1) \<Rightarrow>
          let query = (if include_history \<and> conversation_context \<noteq> []
                       then fst (rewrite_query_with_context (groq_client p) query0
                                   conversation_context)
                       else query0);
              available_context_tokens =
                max 256 (model_max_tokens p - reserved_response_tokens p);
              query_tokens = estimate_tokens query;
              r = budget_loop p session_id query include_history available_context_tokens
                    query_tokens
                    \<lparr>ls_k = desired_k, ls_conversation_context = conversation_context,
                     ls_store = s1, ls_steps = 0\<rparr>;
              response_text = generate_response (groq_client p) query
                                (lr_retrieved_context r) (lr_conversation_context r);
              dbg = \<lparr>conversation_context_preview = py_take 1000 (lr_conversation_context r),
                     retrieved_context_preview = py_take 2000 (lr_retrieved_context r),
                     tokens_conversation = estimate_tokens (lr_conversation_context r),
                     tokens_retrieved = estimate_tokens (lr_retrieved_context r),
                     tokens_query = query_tokens,
                     total_context_allowed = available_context_tokens,
                     used_k = lr_k r, debug_note = None,
                     query_rewritten = Some (query \<noteq> query0),
                     original_query = (if query0 \<noteq> query then Some query0 else None),
                     rewritten_query = (if query0 \<noteq> query then Some query else None)\<rparr>
          in
            case (if include_history
                  then add_exchange (manager p) (lr_store r) session_id query response_text
                  else (case insert_one (manager p) (lr_store r) session_id ''user'' query of
                          Inl e \<Rightarrow> Inl e
                        | Inr s2 \<Rightarrow>
                            insert_one (manager p) s2 session_id ''assistant'' response_text)) of
              Inl e \<Rightarrow> Inl e
            | Inr s3 \<Rightarrow>
                let ev = (if evaluate
                          then (case evaluator p of
                                  None \<Rightarrow> None
                                | Some f \<Rightarrow>
                                    (case f session_id query response_text
                                            (lr_retrieved_context r) of
                                       Inl e \<Rightarrow> None
                                     | Inr (Some (Unstructured True)) \<Rightarrow> None
                                     | Inr v \<Rightarrow> v))
                          else None)
                in Inr (\<lparr>response = response_text, debug = dbg, evaluation = ev\<rparr>, s3))"

definition chat ::
    "'s pipeline \<Rightarrow> 's \<Rightarrow> string \<Rightarrow> string \<Rightarrow> bool \<Rightarrow> bool \<Rightarrow> string + turn \<times> 's" where
  "chat p s session_id query include_history evaluate =
     (if is_greeting query \<and> \<not> is_informational query
      then Inr (greeting_turn p s session_id query evaluate)
      else retrieval_turn p s session_id query include_history evaluate)"

section \<open>Collaborators that return, and example inputs\<close>

text \<open>
  The calls to the store that \<open>chat\<close> makes outside a \<open>try\<close> block return:
  \<open>get_conversation_context\<close>, \<open>add_exchange\<close> and \<open>insert_one\<close> raise nothing.
\<close>

definition store_returns :: "'s conversation_manager \<Rightarrow> bool" where
  "store_returns m =
     ((\<forall>s sid b. \<exists>c s'. get_conversation_context m s sid b = Inr (c, s')) \<and>
      (\<forall>s sid q t. \<exists>s'. add_exchange m s sid q t = Inr s') \<and>
      (\<forall>s sid who t. \<exists>s'. insert_one m s sid who t = Inr s'))"

definition example_documents :: "string list" where
  "example_documents =
     [''Article 21 protects right to life.'', ''Article 14 ensures equality.'']"

definition example_vector_search :: "string \<Rightarrow> int \<Rightarrow> (string \<times> real) list" where
  "example_vector_search query k =
     py_take k [(''Article 21 protects right to life.'', 0.62),
                (''Article 14 ensures equality.'', 0.15)]"

definition example_retriever :: retriever where
  "example_retriever =
     \<lparr>documents = example_documents, vector_search = example_vector_search,
      bm25_ranked = (\<lambda>tokens. [0, 1])\<rparr>"

definition failing_llm :: llm where
  "failing_llm request = Inl ''timeout''"

definition example_manager :: "unit conversation_manager" where
  "example_manager =
     \<lparr>get_conversation_context = (\<lambda>s sid summarizer. Inr (''User: tell me about bail'', s)),
      ensure_summary_limit = (\<lambda>s sid. Inr s),
      add_exchange = (\<lambda>s sid q t. Inr s),
      insert_one = (\<lambda>s sid who t. Inr s)\<rparr>"

definition example_pipeline :: "unit pipeline" where
  "example_pipeline =
     \<lparr>groq_client = failing_llm, vector_store_search = example_vector_search,
      hybrid_retriever = None, manager = example_manager, evaluator = None,
      is_initialized = True, model_max_tokens = 6000, reserved_response_tokens = 1000,
      min_k = 1, retrieve_k = 5\<rparr>"

text \<open>
  A vector store with five passages of 400 characters, all above the score threshold,
  and a pipeline over it with 350 tokens available for context.
\<close>

definition long_passage :: string where
  "long_passage = replicate 400 (CHR ''x'')"

definition long_vector_search :: "string \<Rightarrow> int \<Rightarrow> (string \<times> real) list" where
  "long_vector_search query k = py_take k (replicate 5 (long_passage, 0.5))"

definition small_budget_pipeline :: "unit pipeline" where
  "small_budget_pipeline =
     example_pipeline \<lparr>vector_store_search := long_vector_search, model_max_tokens := 1350\<rparr>"

text \<open>
  A corpus of three distinct passages. Only the second has the token ``ensures'', so for
  that query its lexical score is the only positive one and the descending argsort is
  \<open>[1, 2, 0]\<close>; the vector store ranks the second passage first as well.
\<close>

definition statute_documents :: "string list" where
  "statute_documents =
     [''Article 21 protects right to life.'', ''Article 14 ensures equality.'',
      ''Article 19 protects freedom of speech.'']"

definition statute_vector_search :: "string \<Rightarrow> int \<Rightarrow> (string \<times> real) list" where
  "statute_vector_search query k =
     py_take k [(''Article 14 ensures equality.'', 0.58),
                (''Article 21 protects right to life.'', 0.27),
                (''Article 19 protects freedom of speech.'', 0.21)]"

definition statute_retriever :: retriever where
  "statute_retriever =
     \<lparr>documents = statute_documents, vector_search = statute_vector_search,
      bm25_ranked = (\<lambda>tokens. [1, 2, 0])\<rparr>"

definition statute_pipeline :: "unit pipeline" where
  "statute_pipeline = example_pipeline \<lparr>hybrid_retriever := Some statute_retriever\<rparr>"

text \<open>
  A corpus that is one passage fifteen times. All lexical scores are equal, the
  descending argsort is \<open>[14, ..., 0]\<close>; the vector store returns the fifteen copies
  with one similarity, and \<open>documents.index\<close> maps every one of them to index 0.
\<close>

definition repeated_passage :: string where
  "repeated_passage = ''Constitution of India''"

definition repeated_documents :: "string list" where
  "repeated_documents = replicate 15 repeated_passage"

definition repeated_vector_search :: "string \<Rightarrow> int \<Rightarrow> (string \<times> real) list" where
  "repeated_vector_search query k = py_take k (replicate 15 (repeated_passage, 0.8))"

definition repeated_retriever :: retriever where
  "repeated_retriever =
     \<lparr>documents = repeated_documents, vector_search = repeated_vector_search,
      bm25_ranked = (\<lambda>tokens. rev [0 ..< 15])\<rparr>"

definition repeated_pipeline :: "unit pipeline" where
  "repeated_pipeline = example_pipeline \<lparr>hybrid_retriever := Some repeated_retriever\<rparr>"

text \<open>
  A store that cannot be reached: reading the context of a new session returns the empty
  string, every write raises. The generator of \<open>example_pipeline\<close> fails as well.
\<close>

definition store_down_manager :: "unit conversation_manager" where
  "store_down_manager =
     \<lparr>get_conversation_context = (\<lambda>s sid summarizer. Inr ([], s)),
      ensure_summary_limit = (\<lambda>s sid. Inr s),
      add_exchange = (\<lambda>s sid q t. Inl ''store unreachable''),
      insert_one = (\<lambda>s sid who t. Inl ''store unreachable'')\<rparr>"

definition store_down_pipeline :: "unit pipeline" where
  "store_down_pipeline = example_pipeline \<lparr>manager := store_down_manager\<rparr>"

section \<open>The fused score in the words of the specification\<close>

text \<open>
  The specification gives the fused score of a corpus index as a sum with one term for
  each source in whose truncated list the index appears: the weight of the source divided
  by \<open>60 + rank + 1\<close>, \<open>rank\<close> being the position of the index in that list, counted
  from 0. \<open>rank_term\<close> is the term of one source, \<open>spec_fused_score\<close> the sum over the
  lexical list (weight 1) and the vector list (weight \<open>alpha\<close>).
\<close>

definition rank_term :: "real \<Rightarrow> nat list \<Rightarrow> nat \<Rightarrow> real" where
  "rank_term weight ranked i =
     (case index_of ranked i of None \<Rightarrow> 0 | Some rank \<Rightarrow> weight / (60 + real rank + 1))"

definition spec_fused_score :: "retriever \<Rightarrow> string \<Rightarrow> int \<Rightarrow> real \<Rightarrow> nat \<Rightarrow> real" where
  "spec_fused_score r query k alpha i =
     rank_term 1 (bm25_top r query k) i + rank_term alpha (vector_top r query k) i"

text \<open>
  The entries that \<open>search\<close> returns, before the passage of each is looked up: the
  loop over \<open>sorted_docs[:k]\<close> with its range test.
\<close>

definition selected :: "retriever \<Rightarrow> string \<Rightarrow> int \<Rightarrow> real \<Rightarrow> (nat \<times> real) list" where
  "selected r query k alpha =
     filter (\<lambda>(doc_idx, rrf_score). doc_idx < length (documents r))
       (py_take k (sorted_docs (rrf_scores r query k alpha)))"

text \<open>
  A corpus with a passage that occurs twice. The vector store returns both copies, with
  the same similarity, and \<open>documents.index\<close> maps both to the first: the vector list
  is \<open>[0, 1, 1]\<close>.
\<close>

definition duplicate_documents :: "string list" where
  "duplicate_documents =
     [''Article 21 protects right to life.'', ''Right to life includes livelihood.'',
      ''Right to life includes livelihood.'']"

definition duplicate_vector_search :: "string \<Rightarrow> int \<Rightarrow> (string \<times> real) list" where
  "duplicate_vector_search query k =
     py_take k [(''Article 21 protects right to life.'', 0.71),
                (''Right to life includes livelihood.'', 0.64),
                (''Right to life includes livelihood.'', 0.64)]"

definition duplicate_retriever :: retriever where
  "duplicate_retriever =
     \<lparr>documents = duplicate_documents, vector_search = duplicate_vector_search,
      bm25_ranked = (\<lambda>tokens. [0, 2, 1])\<rparr>"


section \<open>Facts about the string primitives\<close>

lemma py_isspace_lower [simp]: "py_isspace (py_lower_char c) = py_isspace c"
  by (auto simp: py_isspace_def py_lower_char_def Let_def)

lemma dropWhile_space_lower:
  "dropWhile py_isspace (py_lower s) = py_lower (dropWhile py_isspace s)"
  by (induction s) (simp_all add: py_lower_def)

lemma py_strip_lower: "py_strip (py_lower s) = py_lower (py_strip s)"
proof -
  have "rev (py_lower s) = py_lower (rev s)" for s
    by (simp add: py_lower_def rev_map)
  then show ?thesis
    by (simp add: py_strip_def dropWhile_space_lower)
qed

section \<open>Turn classification\<close>

text \<open>
  C4. The claim lists ``thanks a lot'' among the polite phrases that are greetings and
  says that this query takes the greeting shortcut. The phrase is in the list of
  \<open>is_greeting\<close>, but the list is only consulted for a query of at most two words, and
  this one has three: \<open>is_greeting\<close> answers no, and the turn takes the retrieval flow.
\<close>

theorem thanks_a_lot_is_not_greeting:
  "''thanks a lot'' \<in> set greeting_patterns
   \<and> length (py_split ''thanks a lot'') = 3
   \<and> \<not> is_greeting ''thanks a lot''
   \<and> chat p s session_id ''thanks a lot'' include_history evaluate
       = retrieval_turn p s session_id ''thanks a lot'' include_history evaluate"
  by (simp add: chat_def is_greeting_def py_lower_def py_strip_def py_isspace_def
        py_lower_char_def py_split_def single_word_greetings_def greeting_patterns_def)

section \<open>Fusion fallback\<close>

text \<open>
  C3. For a query whose tokenization (lowercase, split on whitespace, drop the tokens of
  length at most 1) is empty, the fusion search returns what the vector search returns
  for the same query and \<open>k\<close>: the same passages, in the same order, with the same
  scores.
\<close>

theorem search_without_tokens_is_vector_search:
  "query_tokens_of query = [] \<Longrightarrow> search r query k alpha = vector_search r query k"
  by (simp add: search_def)

theorem search_without_tokens_is_vector_search_witness:
  "query_tokens_of ''a ?'' = []
   \<and> search example_retriever ''a ?'' 1 (1 / 2) = [(''Article 21 protects right to life.'', 0.62)]"
proof -
  have h: "query_tokens_of ''a ?'' = []"
    by (simp add: query_tokens_of_def py_split_def py_lower_def py_lower_char_def py_isspace_def)
  from search_without_tokens_is_vector_search [OF h, of example_retriever 1 "1 / 2"] h
  show ?thesis
    by (simp add: example_retriever_def example_vector_search_def py_take_def)
qed

section \<open>Query rewriting\<close>

text \<open>
  C6. A query that, trimmed and lowercased, starts with one of the informational starter
  phrases is returned unchanged, and no request is sent to the generator. In particular
  ``explain that article'' is returned unchanged with no request sent, although it has
  the follow-up pronoun ``that''.
\<close>

theorem informational_starter_never_rewritten:
  "(list_ex (\<lambda>starter. startswith (py_lower (py_strip query)) starter) informational_starters
      \<longrightarrow> rewrite_query_with_context groq query conversation_context = (query, []))
   \<and> has_follow_up ''explain that article''
   \<and> rewrite_query_with_context groq ''explain that article'' conversation_context
       = (''explain that article'', [])"
proof -
  have "has_follow_up ''explain that article''"
    by (simp add: has_follow_up_def search_word_def word_ends_here_def py_lower_def
          py_lower_char_def re_word_char_def)
  moreover have "rewrite_query_with_context groq ''explain that article'' conversation_context
       = (''explain that article'', [])"
    by (simp add: rewrite_query_with_context_def informational_starters_def py_lower_def
          py_lower_char_def py_strip_def py_isspace_def)
  ultimately show ?thesis
    by (simp add: rewrite_query_with_context_def py_strip_lower)
qed

theorem informational_starter_never_rewritten_witness:
  "list_ex (\<lambda>starter. startswith (py_lower (py_strip ''  What IS bail'')) starter)
     informational_starters
   \<and> rewrite_query_with_context failing_llm ''  What IS bail'' ''User: tell me about bail''
       = (''  What IS bail'', [])"
proof -
  have h: "list_ex (\<lambda>starter. startswith (py_lower (py_strip ''  What IS bail'')) starter)
             informational_starters"
    by code_simp
  from informational_starter_never_rewritten
         [of "''  What IS bail''" failing_llm "''User: tell me about bail''"] h
  show ?thesis by blast
qed

text \<open>
  C7. The rewrite heuristic returns the original query, or the trimmed text that the
  generator returned for the rewrite request, and then that text has at most twice as
  many words as the original query. When the generator call fails, the original query is
  returned.
\<close>

theorem rewrite_original_or_bounded:
  "(fst (rewrite_query_with_context groq query conversation_context) = query
    \<or> (\<exists>content.
          groq [User (rewrite_prompt query conversation_context)] = Inr content
          \<and> fst (rewrite_query_with_context groq query conversation_context) = py_strip content
          \<and> length (py_split (py_strip content)) \<le> 2 * length (py_split query)))
   \<and> ((\<exists>e. groq [User (rewrite_prompt query conversation_context)] = Inl e)
        \<longrightarrow> fst (rewrite_query_with_context groq query conversation_context) = query)"
  by (auto simp: rewrite_query_with_context_def Let_def split: sum.splits)

theorem rewrite_original_or_bounded_witness:
  "has_follow_up ''it is''
   \<and> (\<exists>e. failing_llm [User (rewrite_prompt ''it is'' ''User: tell me about bail'')] = Inl e)
   \<and> fst (rewrite_query_with_context failing_llm ''it is'' ''User: tell me about bail'') = ''it is''"
proof -
  have f: "has_follow_up ''it is''"
    by (simp add: has_follow_up_def search_word_def word_ends_here_def py_lower_def
          py_lower_char_def re_word_char_def)
  have h: "\<exists>e. failing_llm [User (rewrite_prompt ''it is'' ''User: tell me about bail'')] = Inl e"
    by (simp add: failing_llm_def)
  from rewrite_original_or_bounded [of failing_llm "''it is''" "''User: tell me about bail''"] h f
  show ?thesis by blast
qed

section \<open>Retrieved context\<close>

text \<open>
  C8. When the pipeline is initialized and the retrieval step returns a non-empty list,
  the retrieved context is the passages whose score exceeds 0.2, joined by a blank line,
  if there is such a passage; otherwise it is the passages of \<open>results[:k]\<close>, joined by
  a blank line, whatever their scores.
\<close>

theorem retrieve_context_threshold_or_top_k:
  assumes "is_initialized p" and "retrieval_results p query k \<noteq> []"
  shows "retrieve_context p query k =
     (if list_ex (\<lambda>(doc, score). score > score_threshold) (retrieval_results p query k)
      then py_join (nl @ nl)
             (map fst (filter (\<lambda>(doc, score). score > score_threshold)
                         (retrieval_results p query k)))
      else py_join (nl @ nl) (map fst (py_take k (retrieval_results p query k))))"
proof -
  have "(filter (\<lambda>(doc, score). score > score_threshold) (retrieval_results p query k) = []) =
        (\<not> list_ex (\<lambda>(doc, score). score > score_threshold) (retrieval_results p query k))"
    by (auto simp: list_ex_iff filter_empty_conv)
  then show ?thesis using assms by (simp add: retrieve_context_def Let_def)
qed

theorem retrieve_context_threshold_or_top_k_witness:
  "is_initialized example_pipeline
   \<and> retrieval_results example_pipeline ''right to life'' 2
       = [(''Article 21 protects right to life.'', 0.62), (''Article 14 ensures equality.'', 0.15)]
   \<and> retrieve_context example_pipeline ''right to life'' 2 = ''Article 21 protects right to life.''"
proof -
  have i: "is_initialized example_pipeline"
    by (simp add: example_pipeline_def)
  have r: "retrieval_results example_pipeline ''right to life'' 2
       = [(''Article 21 protects right to life.'', 0.62), (''Article 14 ensures equality.'', 0.15)]"
    by (simp add: retrieval_results_def example_pipeline_def example_vector_search_def py_take_def)
  then have n: "retrieval_results example_pipeline ''right to life'' 2 \<noteq> []"
    by simp
  from retrieve_context_threshold_or_top_k [OF i n] i r
  show ?thesis by (simp add: score_threshold_def)
qed

section \<open>Generator failure\<close>

lemma store_returns_get:
  "store_returns m \<Longrightarrow> \<exists>c s'. get_conversation_context m s sid b = Inr (c, s')"
  by (simp add: store_returns_def)

lemma store_returns_add:
  "store_returns m \<Longrightarrow> \<exists>s'. add_exchange m s sid q t = Inr s'"
  by (simp add: store_returns_def)

lemma store_returns_insert:
  "store_returns m \<Longrightarrow> \<exists>s'. insert_one m s sid who t = Inr s'"
  by (simp add: store_returns_def)

lemma retrieval_turn_returns:
  assumes fail: "\<forall>u. groq_client p [System system_prompt, User u] = Inl e"
      and ok: "store_returns (manager p)"
  shows "\<exists>t s'. retrieval_turn p s sid query h ev = Inr (t, s') \<and>
           response t = ''Error generating response: '' @ e"
proof -
  have gen: "\<And>q c cc. generate_response (groq_client p) q c cc = ''Error generating response: '' @ e"
    using fail by (simp add: generate_response_def)
  have add: "\<And>s sid q t. add_exchange (manager p) s sid q t \<noteq> Inl x" for x
    using store_returns_add [OF ok] by (metis sum.distinct(1))
  have ins: "\<And>s sid who t. insert_one (manager p) s sid who t \<noteq> Inl x" for x
    using store_returns_insert [OF ok] by (metis sum.distinct(1))
  have get: "\<And>s sid b. get_conversation_context (manager p) s sid b \<noteq> Inl x" for x
    using store_returns_get [OF ok] by (metis sum.distinct(1))
  show ?thesis
    unfolding retrieval_turn_def Let_def
    by (auto simp: gen add ins get split: sum.splits prod.splits)
qed

text \<open>
  If the generator fails on the answer request, with exception text \<open>e\<close>,
  \<open>generate_response\<close> returns the string ``Error generating response: \<open>e\<close>''; and
  when the calls that \<open>chat\<close> makes to the store outside a \<open>try\<close> block return, the
  turn completes with that string as its response.
\<close>

lemma generator_failure_response_when_store_returns:
  assumes fail: "\<forall>u. groq_client p [System system_prompt, User u] = Inl e"
      and ok: "store_returns (manager p)"
  shows "generate_response (groq_client p) query context conversation_context
           = ''Error generating response: '' @ e
         \<and> (\<exists>t s'. chat p s session_id query include_history evaluate = Inr (t, s')
                \<and> response t = ''Error generating response: '' @ e)"
proof -
  have gen: "generate_response (groq_client p) q c cc = ''Error generating response: '' @ e"
    for q c cc
    using fail by (simp add: generate_response_def)
  have "\<exists>t s'. chat p s session_id query include_history evaluate = Inr (t, s')
                \<and> response t = ''Error generating response: '' @ e"
  proof (cases "is_greeting query \<and> \<not> is_informational query")
    case True
    then show ?thesis
      by (simp add: chat_def greeting_turn_def gen Let_def)
  next
    case False
    then have "chat p s session_id query include_history evaluate
                 = retrieval_turn p s session_id query include_history evaluate"
      by (auto simp: chat_def)
    then show ?thesis
      using retrieval_turn_returns [OF fail ok, of s session_id query include_history evaluate]
      by simp
  qed
  with gen show ?thesis by simp
qed

text \<open>
  C9. The claim says that when the text-generation call fails, the response-generation
  step returns the formatted error string and the turn still completes with that string
  as its response. \<open>generate_response\<close> does return the string. The retrieval flow
  then stores the exchange outside any \<open>try\<close> block: with a store that raises, the
  turn ends with the exception of the store and returns no response, without history
  (\<open>insert_one\<close>) and with it (\<open>add_exchange\<close>). The greeting path wraps the same
  \<open>insert_one\<close> calls in \<open>try ... except: pass\<close> and completes with the error string.
\<close>

theorem generator_failure_then_store_failure_aborts_turn:
  "generate_response (groq_client store_down_pipeline) ''what is bail'' [] []
     = ''Error generating response: timeout''
   \<and> chat store_down_pipeline () ''s1'' ''what is bail'' False False = Inl ''store unreachable''
   \<and> chat store_down_pipeline () ''s1'' ''what is bail'' True False = Inl ''store unreachable''
   \<and> map_sum id (response \<circ> fst) (chat store_down_pipeline () ''s1'' ''hello'' False False)
       = Inr ''Error generating response: timeout''"
  by code_simp

section \<open>The context budget loop\<close>

lemma loop_body_Continue:
  "loop_body p sid q h a qt st = Continue st' \<Longrightarrow>
     min_k p < ls_k st \<and> ls_k st' = ls_k st - 1 \<and> ls_steps st' = Suc (ls_steps st)"
  by (auto simp: loop_body_def Let_def split: if_splits prod.splits)

lemma loop_body_Break:
  "loop_body p sid q h a qt st = Break r \<Longrightarrow>
     lr_steps r = Suc (ls_steps st) \<and> lr_k r = ls_k st \<and>
     (lr_exit r \<noteq> HardTruncated \<longrightarrow>
        estimate_tokens (lr_conversation_context r) + estimate_tokens (lr_retrieved_context r)
          + qt \<le> a) \<and>
     (lr_exit r = HardTruncated \<longrightarrow> ls_k st \<le> min_k p)"
  by (auto simp: loop_body_def Let_def split: if_splits prod.splits)

text \<open>
  From any state the loop makes at most \<open>max 0 (k - min_k) + 1\<close> further passes; it
  leaves within budget unless through the truncation branch; and from \<open>k \<ge> min_k\<close> the
  truncation branch is taken at \<open>k = min_k\<close>.
\<close>

lemma budget_loop_props:
  "lr_steps (budget_loop p sid q h a qt st) \<le> ls_steps st + nat (ls_k st - min_k p) + 1 \<and>
   (lr_exit (budget_loop p sid q h a qt st) \<noteq> HardTruncated \<longrightarrow>
      estimate_tokens (lr_conversation_context (budget_loop p sid q h a qt st))
      + estimate_tokens (lr_retrieved_context (budget_loop p sid q h a qt st)) + qt \<le> a) \<and>
   (min_k p \<le> ls_k st \<longrightarrow> lr_exit (budget_loop p sid q h a qt st) = HardTruncated \<longrightarrow>
      lr_k (budget_loop p sid q h a qt st) = min_k p)"
proof (induction p sid q h a qt st rule: budget_loop.induct)
  case (1 p sid q h a qt st)
  show ?case
  proof (cases "loop_body p sid q h a qt st")
    case (Continue st')
    note body = loop_body_Continue [OF Continue]
    have eq: "budget_loop p sid q h a qt st = budget_loop p sid q h a qt st'"
      by (subst budget_loop.simps) (simp add: Continue)
    from "1.IH" [OF Continue] body show ?thesis
      unfolding eq by auto
  next
    case (Break r)
    note body = loop_body_Break [OF Break]
    have eq: "budget_loop p sid q h a qt st = r"
      by (subst budget_loop.simps) (simp add: Break)
    from body show ?thesis unfolding eq by auto
  qed
qed

text \<open>
  C1. Started as \<open>chat\<close> starts it, at \<open>k = desired_k \<ge> min_k\<close> with the step count 0,
  the budget loop returns after at most \<open>(desired_k - min_k + 1) + 2\<close> passes through
  its body. On exit the estimates of the conversation context, of the retrieved context
  and of the query, recomputed on the returned texts, sum to at most the available
  tokens, unless the exit is the hard-truncation branch; and that branch is taken at
  \<open>k = min_k\<close> only.
\<close>

theorem budget_loop_bounded_and_within_budget:
  assumes "min_k p \<le> desired_k"
  shows "(let r = budget_loop p session_id query include_history available
                    (estimate_tokens query)
                    \<lparr>ls_k = desired_k, ls_conversation_context = conversation_context,
                     ls_store = s, ls_steps = 0\<rparr>
          in lr_steps r \<le> nat (desired_k - min_k p + 1) + 2 \<and>
             (lr_exit r \<noteq> HardTruncated \<longrightarrow>
                estimate_tokens (lr_conversation_context r)
                + estimate_tokens (lr_retrieved_context r) + estimate_tokens query
                \<le> available) \<and>
             (lr_exit r = HardTruncated \<longrightarrow> lr_k r = min_k p))"
  using assms
    budget_loop_props [of p session_id query include_history available "estimate_tokens query"
      "\<lparr>ls_k = desired_k, ls_conversation_context = conversation_context,
        ls_store = s, ls_steps = 0\<rparr>"]
  by (auto simp: Let_def)

theorem budget_loop_bounded_and_within_budget_witness:
  "min_k example_pipeline \<le> 5
   \<and> (let r = budget_loop example_pipeline ''s1'' ''what is bail'' True 5000
                 (estimate_tokens ''what is bail'')
                 \<lparr>ls_k = 5, ls_conversation_context = ''User: tell me about bail'',
                  ls_store = (), ls_steps = 0\<rparr>
       in lr_steps r \<le> 7 \<and>
          (lr_exit r \<noteq> HardTruncated \<longrightarrow>
             estimate_tokens (lr_conversation_context r)
             + estimate_tokens (lr_retrieved_context r) + estimate_tokens ''what is bail''
             \<le> 5000) \<and>
          (lr_exit r = HardTruncated \<longrightarrow> lr_k r = 1))"
proof -
  have h: "min_k example_pipeline \<le> 5"
    by (simp add: example_pipeline_def)
  have m: "min_k example_pipeline = 1"
    by (simp add: example_pipeline_def)
  from budget_loop_bounded_and_within_budget
         [OF h, of "''s1''" "''what is bail''" True 5000 "''User: tell me about bail''" "()"] h
  show ?thesis by (simp add: m)
qed

section \<open>Reciprocal-rank fusion\<close>

text \<open>
  Unfolding the definitions on concrete inputs.
\<close>

lemmas eval_defs = search_def query_tokens_of_def py_split_def py_lower_def py_lower_char_def
  py_isspace_def rrf_scores_def bm25_top_def vector_top_def vector_ranked_def sorted_docs_def
  py_take_def spec_fused_score_def rank_term_def


lemmas statute_defs = statute_retriever_def statute_documents_def statute_vector_search_def

subsection \<open>The score dictionary\<close>

lemma index_of_Some: "index_of xs x = Some i \<Longrightarrow> i < length xs \<and> xs ! i = x"
  by (induction xs arbitrary: i) (auto split: if_splits)

lemma index_of_None_iff: "index_of xs x = None \<longleftrightarrow> x \<notin> set xs"
  by (induction xs) auto

lemma map_of_rrf_add:
  "map_of (rrf_add m i w) = (map_of m)(i \<mapsto> (case map_of m i of None \<Rightarrow> 0 | Some s \<Rightarrow> s) + w)"
  by (induction m) (auto simp: fun_eq_iff)

lemma keys_rrf_add:
  "map fst (rrf_add m i w) = (if i \<in> fst ` set m then map fst m else map fst m @ [i])"
  by (induction m) force+

lemma distinct_rrf_add: "distinct (map fst m) \<Longrightarrow> distinct (map fst (rrf_add m i w))"
  by (simp add: keys_rrf_add)

lemma distinct_add_ranks:
  "distinct (map fst m) \<Longrightarrow> distinct (map fst (add_ranks w r xs m))"
  by (induction xs arbitrary: r m) (simp_all add: distinct_rrf_add)

lemma map_of_add_ranks:
  "distinct xs \<Longrightarrow>
   map_of (add_ranks w r xs m) i =
     (case index_of xs i of
        None \<Rightarrow> map_of m i
      | Some pos \<Rightarrow>
          Some ((case map_of m i of None \<Rightarrow> 0 | Some s \<Rightarrow> s) + w / (60 + real (r + pos) + 1)))"
proof (induction xs arbitrary: r m)
  case Nil
  then show ?case by simp
next
  case (Cons x xs)
  then have d: "distinct xs" and nx: "x \<notin> set xs" by simp_all
  show ?case
  proof (cases "i = x")
    case True
    then have "index_of xs i = None" using nx by (simp add: index_of_None_iff)
    then show ?thesis using True Cons.IH [OF d] by (simp add: map_of_rrf_add)
  next
    case False
    then show ?thesis using Cons.IH [OF d]
      by (simp add: map_of_rrf_add split: option.splits)
  qed
qed





lemma distinct_py_take: "distinct xs \<Longrightarrow> distinct (py_take k xs)"
  by (simp add: py_take_def)

lemma set_py_take: "set (py_take k xs) \<subseteq> set xs"
  by (simp add: py_take_def set_take_subset)





lemma set_sorted_docs: "set (sorted_docs m) = set m"
  by (simp add: sorted_docs_def)


lemma search_selected:
  "query_tokens_of query \<noteq> [] \<Longrightarrow>
   search r query k alpha =
     map (\<lambda>(doc_idx, rrf_score). (documents r ! doc_idx, rrf_score)) (selected r query k alpha)"
  by (simp add: search_def selected_def)

lemma set_selected: "set (selected r query k alpha) \<subseteq> set (rrf_scores r query k alpha)"
  using set_py_take [of k "sorted_docs (rrf_scores r query k alpha)"]
  by (auto simp: selected_def set_sorted_docs)





lemma term_le:
  fixes w :: real
  assumes "0 \<le> w"
  shows "w / (60 + real (r + pos) + 1) \<le> w / (61 + real r)"
  using assms by (intro frac_le) simp_all

lemma fused_entry_bound:
  assumes dl: "distinct ls" and dv: "distinct vs" and a: "0 \<le> alpha"
      and mem: "(j, t) \<in> set (add_ranks alpha r vs (add_ranks 1 r ls []))"
  shows "t \<le> 1 / (61 + real r) + alpha / (61 + real r)"
proof -
  have "distinct (map fst (add_ranks alpha r vs (add_ranks 1 r ls [])))"
    by (simp add: distinct_add_ranks)
  with mem have m: "map_of (add_ranks alpha r vs (add_ranks 1 r ls [])) j = Some t"
    by simp
  have one: "1 / (60 + real (r + pos) + 1) \<le> 1 / (61 + real r)" for pos
    using term_le [of 1 r pos] by simp
  have al: "alpha / (60 + real (r + pos) + 1) \<le> alpha / (61 + real r)" for pos
    using term_le [OF a] .
  have nn: "0 \<le> 1 / (61 + real r)" "0 \<le> alpha / (61 + real r)"
    using a by simp_all
  show ?thesis
  proof (cases "index_of ls j")
    case None
    note l = None
    show ?thesis
    proof (cases "index_of vs j")
      case None
      with l m dl dv show ?thesis by (simp add: map_of_add_ranks)
    next
      case (Some q)
      with l m dl dv have "t = 0 + alpha / (60 + real (r + q) + 1)"
        by (simp add: map_of_add_ranks)
      with al [of q] nn show ?thesis by linarith
    qed
  next
    case (Some p)
    note l = Some
    show ?thesis
    proof (cases "index_of vs j")
      case None
      with l m dl dv have "t = 0 + 1 / (60 + real (r + p) + 1)"
        by (simp add: map_of_add_ranks)
      with one [of p] nn show ?thesis by linarith
    next
      case (Some q)
      with l m dl dv have "t = (0 + 1 / (60 + real (r + p) + 1)) + alpha / (60 + real (r + q) + 1)"
        by (simp add: map_of_add_ranks)
      with one [of p] al [of q] show ?thesis by linarith
    qed
  qed
qed

lemma search_scores_bounded:
  assumes tokens: "query_tokens_of query \<noteq> []"
      and a: "0 \<le> alpha"
      and lex: "distinct (bm25_ranked r (query_tokens_of query))"
      and vec: "distinct (vector_ranked (documents r)
                            (vector_search r query (int (length (documents r)))))"
      and mem: "(doc, score) \<in> set (search r query k alpha)"
  shows "score \<le> 1 / 61 + alpha / 61"
proof -
  from mem obtain i where "(i, score) \<in> set (selected r query k alpha)"
    by (auto simp: search_selected [OF tokens])
  then have "(i, score) \<in> set (rrf_scores r query k alpha)"
    using set_selected by blast
  moreover have "distinct (bm25_top r query k)" "distinct (vector_top r query k)"
    using lex vec by (simp_all add: bm25_top_def vector_top_def distinct_py_take)
  ultimately show ?thesis
    using fused_entry_bound [of "bm25_top r query k" "vector_top r query k" alpha i score 0] a
    by (simp add: rrf_scores_def)
qed

lemma add_ranks_keeps_head:
  "i \<notin> set xs \<Longrightarrow> add_ranks w r xs ((i, s) # m) = (i, s) # add_ranks w r xs m"
  by (induction xs arbitrary: r m) auto

lemma insort_key_first:
  "(\<And>y. y \<in> set ys \<Longrightarrow> f x \<le> f y) \<Longrightarrow> insort_key f x ys = x # ys"
  by (cases ys) auto

lemma sorted_docs_top:
  assumes "\<And>j t. (j, t) \<in> set rest \<Longrightarrow> t \<le> s"
  shows "sorted_docs ((i, s) # rest) = (i, s) # sorted_docs rest"
proof -
  have "insort_key (\<lambda>(doc_idx, score). - score) (i, s)
          (sort_key (\<lambda>(doc_idx, score). - score) rest)
        = (i, s) # sort_key (\<lambda>(doc_idx, score). - score) rest"
    using assms by (intro insort_key_first) auto
  then show ?thesis
    by (simp add: sorted_docs_def)
qed

lemma vector_ranked_in_range: "i \<in> set (vector_ranked docs results) \<Longrightarrow> i < length docs"
  unfolding vector_ranked_def
  by (induction results) (auto split: option.splits dest: index_of_Some)

lemma py_take_Cons: "1 \<le> k \<Longrightarrow> py_take k (x # xs) = x # take (nat k - 1) xs"
  by (simp add: py_take_def take_Cons')

subsection \<open>Fused scores\<close>




subsection \<open>Rank dominance\<close>

text \<open>
  The claim of C5 as stated fails on the corpus with the repeated passage: the
  first passage is at rank 0 of the lexical ranking (it alone has the token
  ``protects'') and of the vector ranking, and the fused output for \<open>k = 1\<close>,
  \<open>alpha = 1/2\<close> is the repeated passage.
\<close>

theorem duplicate_passage_rank_counterexample:
  "query_tokens_of ''protects'' = [''protects'']
   \<and> bm25_ranked duplicate_retriever (query_tokens_of ''protects'') = [0, 2, 1]
   \<and> vector_ranked (documents duplicate_retriever)
        (vector_search duplicate_retriever ''protects'' (int (length (documents duplicate_retriever))))
       = [0, 1, 1]
   \<and> documents duplicate_retriever ! 0 = ''Article 21 protects right to life.''
   \<and> search duplicate_retriever ''protects'' 1 (1 / 2)
       = [(''Right to life includes livelihood.'', 83 / 2604)]"
  by (simp add: eval_defs duplicate_retriever_def duplicate_documents_def
        duplicate_vector_search_def)

text \<open>
  C5, amended. For a query with scorable tokens, \<open>alpha \<ge> 0\<close> (so for every
  \<open>alpha > 0\<close>) and \<open>k \<ge> 1\<close>, when neither ranking repeats an index (the vector hits
  map to pairwise distinct corpus indices), a passage at rank 0 of the lexical ranking
  and of the vector ranking is the first of the fused output.
\<close>

theorem rank_zero_in_both_is_first:
  assumes tokens: "query_tokens_of query \<noteq> []"
      and a: "0 \<le> alpha"
      and k: "1 \<le> k"
      and lex: "bm25_ranked r (query_tokens_of query) = i # lex_rest"
      and vec: "vector_ranked (documents r)
                  (vector_search r query (int (length (documents r)))) = i # vec_rest"
      and dlex: "distinct (i # lex_rest)"
      and dvec: "distinct (i # vec_rest)"
  shows "\<exists>score rest. search r query k alpha = (documents r ! i, score) # rest"
proof -
  define ls where "ls = take (nat (k * 3) - 1) lex_rest"
  define vs where "vs = take (nat (k * 3) - 1) vec_rest"
  define others where "others = add_ranks alpha 1 vs (add_ranks 1 1 ls [])"
  have k3: "1 \<le> k * 3" using k by simp
  have bt: "bm25_top r query k = i # ls"
    by (simp add: bm25_top_def lex ls_def py_take_Cons [OF k3])
  have vt: "vector_top r query k = i # vs"
    by (simp add: vector_top_def vec vs_def py_take_Cons [OF k3])
  have il: "i \<notin> set ls" and dl: "distinct ls"
    using dlex by (auto simp: ls_def dest: in_set_takeD)
  have iv: "i \<notin> set vs" and dv: "distinct vs"
    using dvec by (auto simp: vs_def dest: in_set_takeD)
  have "add_ranks 1 0 (i # ls) [] = (i, 1 / 61) # add_ranks 1 1 ls []"
    using il by (simp add: add_ranks_keeps_head)
  then have "rrf_scores r query k alpha
               = add_ranks alpha 1 vs ((i, 1 / 61 + alpha / 61) # add_ranks 1 1 ls [])"
    by (simp add: rrf_scores_def bt vt)
  then have scores: "rrf_scores r query k alpha = (i, 1 / 61 + alpha / 61) # others"
    using iv by (simp add: add_ranks_keeps_head others_def)
  have low: "t \<le> 1 / 61 + alpha / 61" if "(j, t) \<in> set others" for j t
  proof -
    have "t \<le> 1 / (61 + real (1::nat)) + alpha / (61 + real (1::nat))"
      using fused_entry_bound [OF dl dv a, of j t 1] that by (simp add: others_def)
    moreover have "1 / (61 + real (1::nat)) \<le> (1::real) / 61"
      by simp
    moreover have "alpha / (61 + real (1::nat)) \<le> alpha / 61"
      using a by (intro frac_le) simp_all
    ultimately show ?thesis by linarith
  qed
  have sorted: "sorted_docs (rrf_scores r query k alpha)
                  = (i, 1 / 61 + alpha / 61) # sorted_docs others"
    unfolding scores using low by (rule sorted_docs_top)
  have "i \<in> set (vector_ranked (documents r)
                    (vector_search r query (int (length (documents r)))))"
    by (simp add: vec)
  then have range: "i < length (documents r)"
    by (rule vector_ranked_in_range)
  show ?thesis
    using range by (simp add: search_def tokens sorted py_take_Cons [OF k])
qed

theorem rank_zero_in_both_is_first_witness:
  "query_tokens_of ''ensures'' \<noteq> []
   \<and> (0::real) \<le> 9 / 10 \<and> (1::int) \<le> 1
   \<and> bm25_ranked statute_retriever (query_tokens_of ''ensures'') = 1 # [2, 0]
   \<and> vector_ranked (documents statute_retriever)
        (vector_search statute_retriever ''ensures'' (int (length (documents statute_retriever))))
       = 1 # [0, 2]
   \<and> distinct (1 # [2, 0::nat]) \<and> distinct (1 # [0, 2::nat])
   \<and> documents statute_retriever ! 1 = ''Article 14 ensures equality.''
   \<and> (\<exists>score rest. search statute_retriever ''ensures'' 1 (9 / 10)
         = (documents statute_retriever ! 1, score) # rest)"
proof -
  have t: "query_tokens_of ''ensures'' \<noteq> []"
    by (simp add: eval_defs)
  have a: "(0::real) \<le> 9 / 10" by simp
  have k: "(1::int) \<le> 1" by simp
  have l: "bm25_ranked statute_retriever (query_tokens_of ''ensures'') = 1 # [2, 0]"
    by (simp add: statute_defs)
  have v: "vector_ranked (documents statute_retriever)
        (vector_search statute_retriever ''ensures'' (int (length (documents statute_retriever))))
       = 1 # [0, 2]"
    by (simp add: statute_defs eval_defs)
  have dl: "distinct (1 # [2, 0::nat])" and dv: "distinct (1 # [0, 2::nat])" by simp_all
  have d: "documents statute_retriever ! 1 = ''Article 14 ensures equality.''"
    by (simp add: statute_defs)
  from rank_zero_in_both_is_first [OF t a k l v dl dv] t a l v d
  show ?thesis by simp
qed

subsection \<open>Fused scores and the score threshold\<close>

text \<open>
  The claim of C10 as stated fails on the corpus that is one passage fifteen times, for
  the \<open>alpha = 0.9\<close> of \<open>retrieve_context\<close> and \<open>k = 5\<close>. The fifteen vector hits all
  map to index 0, whose fused score collects fifteen vector terms: it is above
  \<open>(1 + alpha) / 61\<close> and above the threshold 0.2. The threshold filter admits that
  result, and the retrieved context is the one passage, not the five passages of
  \<open>results[:k]\<close>.
\<close>

theorem duplicate_passage_bound_counterexample:
  "query_tokens_of ''constitution'' = [''constitution'']
   \<and> vector_top repeated_retriever ''constitution'' 5 = replicate 15 0
   \<and> search repeated_retriever ''constitution'' 5 hybrid_alpha
       = [(''Constitution of India'', 97075050993353636527 / 456458539880559216000),
          (''Constitution of India'', 1 / 61), (''Constitution of India'', 1 / 62),
          (''Constitution of India'', 1 / 63), (''Constitution of India'', 1 / 64)]
   \<and> (1 + hybrid_alpha) / 61 < (97075050993353636527 / 456458539880559216000 :: real)
   \<and> score_threshold < (97075050993353636527 / 456458539880559216000 :: real)
   \<and> retrieve_context repeated_pipeline ''constitution'' 5 = ''Constitution of India''
   \<and> length (py_take 5 (search repeated_retriever ''constitution'' 5 hybrid_alpha)) = 5"
proof -
  have t: "query_tokens_of ''constitution'' = [''constitution'']"
    by code_simp
  have v: "vector_top repeated_retriever ''constitution'' 5 = replicate 15 0"
    by code_simp
  have s: "search repeated_retriever ''constitution'' 5 hybrid_alpha
       = [(''Constitution of India'', 97075050993353636527 / 456458539880559216000),
          (''Constitution of India'', 1 / 61), (''Constitution of India'', 1 / 62),
          (''Constitution of India'', 1 / 63), (''Constitution of India'', 1 / 64)]"
    by code_simp
  have b: "(1 + hybrid_alpha) / 61 < (97075050993353636527 / 456458539880559216000 :: real)"
    and th: "score_threshold < (97075050993353636527 / 456458539880559216000 :: real)"
    by (simp_all add: hybrid_alpha_def score_threshold_def)
  have r: "retrieval_results repeated_pipeline ''constitution'' 5
             = search repeated_retriever ''constitution'' 5 hybrid_alpha"
    by (simp add: retrieval_results_def repeated_pipeline_def)
  have i: "is_initialized repeated_pipeline"
    by (simp add: repeated_pipeline_def example_pipeline_def)
  have c: "retrieve_context repeated_pipeline ''constitution'' 5 = ''Constitution of India''"
    by (simp add: retrieve_context_def i r s score_threshold_def)
  have l: "length (py_take 5 (search repeated_retriever ''constitution'' 5 hybrid_alpha)) = 5"
    by (simp add: s py_take_def)
  from t v s b th c l show ?thesis by blast
qed

text \<open>
  C10, amended. For a query with scorable tokens and \<open>alpha \<ge> 0\<close>, when neither
  ranking repeats an index (the vector hits map to pairwise distinct corpus indices),
  every fused score returned is at most \<open>1 / 61 + alpha / 61\<close>, the sum of the two
  terms of rank 0; for \<open>alpha \<le> 1\<close> it is below the threshold 0.2; and in an
  initialized pipeline with this retriever the threshold filter of \<open>retrieve_context\<close>
  admits no result, the retrieved context being the passages of \<open>results[:k]\<close> joined
  by a blank line.
\<close>

theorem fused_scores_below_threshold:
  assumes tokens: "query_tokens_of query \<noteq> []"
      and a: "0 \<le> alpha"
      and lex: "distinct (bm25_ranked r (query_tokens_of query))"
      and vec: "distinct (vector_ranked (documents r)
                            (vector_search r query (int (length (documents r)))))"
  shows "list_all (\<lambda>(doc, score). score \<le> 1 / 61 + alpha / 61) (search r query k alpha)
         \<and> (alpha \<le> 1 \<longrightarrow>
              list_all (\<lambda>(doc, score). score < score_threshold) (search r query k alpha))
         \<and> (is_initialized p \<and> hybrid_retriever p = Some r \<longrightarrow>
              filter (\<lambda>(doc, score). score > score_threshold) (retrieval_results p query k) = []
              \<and> retrieve_context p query k
                  = py_join (nl @ nl) (map fst (py_take k (search r query k hybrid_alpha))))"
proof -
  have bound: "score \<le> 1 / 61 + b / 61"
    if "0 \<le> b" and "(doc, score) \<in> set (search r query k b)" for b doc score
    using search_scores_bounded [OF tokens that(1) lex vec that(2)] .
  have below: "score < score_threshold"
    if "0 \<le> b" and "b \<le> 1" and "(doc, score) \<in> set (search r query k b)" for b doc score
  proof -
    have "score \<le> 1 / 61 + b / 61" using bound that by blast
    also have "\<dots> \<le> 1 / 61 + 1 / 61" using that(2) by simp
    also have "\<dots> < score_threshold" by (simp add: score_threshold_def)
    finally show ?thesis .
  qed
  have first: "list_all (\<lambda>(doc, score). score \<le> 1 / 61 + alpha / 61) (search r query k alpha)"
    using bound [OF a] by (auto simp: list_all_iff)
  have second: "alpha \<le> 1 \<longrightarrow>
              list_all (\<lambda>(doc, score). score < score_threshold) (search r query k alpha)"
    using below [OF a] by (auto simp: list_all_iff)
  have third: "filter (\<lambda>(doc, score). score > score_threshold) (retrieval_results p query k) = []
              \<and> retrieve_context p query k
                  = py_join (nl @ nl) (map fst (py_take k (search r query k hybrid_alpha)))"
    if init: "is_initialized p" and hyb: "hybrid_retriever p = Some r"
  proof -
    have res: "retrieval_results p query k = search r query k hybrid_alpha"
      by (simp add: retrieval_results_def hyb)
    have ha: "0 \<le> hybrid_alpha" "hybrid_alpha \<le> 1"
      by (simp_all add: hybrid_alpha_def)
    have none: "filter (\<lambda>(doc, score). score > score_threshold)
                  (search r query k hybrid_alpha) = []"
      using below [OF ha] by (fastforce simp: filter_empty_conv)
    have "py_take k ([] :: (string \<times> real) list) = []"
      by (simp add: py_take_def)
    then show ?thesis
      using init none by (simp add: retrieve_context_def res Let_def)
  qed
  from first second third show ?thesis by blast
qed

theorem fused_scores_below_threshold_witness:
  "query_tokens_of ''ensures'' \<noteq> []
   \<and> (0::real) \<le> 9 / 10 \<and> (9 / 10 :: real) \<le> 1
   \<and> distinct (bm25_ranked statute_retriever (query_tokens_of ''ensures''))
   \<and> distinct (vector_ranked (documents statute_retriever)
        (vector_search statute_retriever ''ensures'' (int (length (documents statute_retriever)))))
   \<and> is_initialized statute_pipeline
   \<and> hybrid_retriever statute_pipeline = Some statute_retriever
   \<and> list_all (\<lambda>(doc, score). score \<le> 1 / 61 + (9 / 10) / 61)
        (search statute_retriever ''ensures'' 2 (9 / 10))
   \<and> list_all (\<lambda>(doc, score). score < score_threshold)
        (search statute_retriever ''ensures'' 2 (9 / 10))
   \<and> retrieve_context statute_pipeline ''ensures'' 2
       = py_join (nl @ nl) (map fst (py_take 2 (search statute_retriever ''ensures'' 2 hybrid_alpha)))"
proof -
  have t: "query_tokens_of ''ensures'' \<noteq> []"
    by (simp add: eval_defs)
  have a: "(0::real) \<le> 9 / 10" and a1: "(9 / 10 :: real) \<le> 1" by simp_all
  have l: "distinct (bm25_ranked statute_retriever (query_tokens_of ''ensures''))"
    by (simp add: statute_defs)
  have v: "distinct (vector_ranked (documents statute_retriever)
        (vector_search statute_retriever ''ensures'' (int (length (documents statute_retriever)))))"
    by (simp add: statute_defs eval_defs)
  have i: "is_initialized statute_pipeline"
    and h: "hybrid_retriever statute_pipeline = Some statute_retriever"
    by (simp_all add: statute_pipeline_def example_pipeline_def)
  from fused_scores_below_threshold [OF t a l v, of 2 statute_pipeline] t a a1 l v i h
  show ?thesis by blast
qed

section \<open>Runs of the budget loop\<close>

text \<open>
  With 350 tokens available, \<open>k = 5\<close> and \<open>k = 4\<close> are over budget and \<open>k = 3\<close> fits:
  two decrements, three passes, \<open>used_k = 3\<close>.
\<close>

lemma budget_loop_two_decrements:
  "(let r = budget_loop small_budget_pipeline ''s1'' ''what is bail'' False 350
              (estimate_tokens ''what is bail'')
              \<lparr>ls_k = 5, ls_conversation_context = [], ls_store = (), ls_steps = 0\<rparr>
    in (lr_k r, lr_steps r, lr_exit r, estimate_tokens (lr_retrieved_context r)))
   = (3, 3, WithinBudget, 301)"
  by code_simp

text \<open>
  With 50 tokens available even \<open>k = 1\<close> is over budget: the loop ends in the truncation
  branch at \<open>k = min_k = 1\<close>, the retrieved context cut to \<open>(50 - 3) * 4\<close> characters.
\<close>

lemma budget_loop_hard_truncation:
  "(let r = budget_loop small_budget_pipeline ''s1'' ''what is bail'' False 50
              (estimate_tokens ''what is bail'')
              \<lparr>ls_k = 2, ls_conversation_context = [], ls_store = (), ls_steps = 0\<rparr>
    in (lr_k r, lr_steps r, lr_exit r, estimate_tokens (lr_retrieved_context r)))
   = (1, 2, HardTruncated, 47)"
  by code_simp

end
